theory Spec2Isabelle
  imports Complex_Main
begin

section \<open>The OneBot V11 adapter (\<^verbatim>\<open>nonebot/adapters/onebot/v11/adapter.py\<close>)\<close>

subsection \<open>Values handled by the adapter\<close>

text \<open>
  A Python float as \<^verbatim>\<open>json.loads\<close> can return it: a finite number or one of the three
  special literals that the JSON module accepts.
\<close>

datatype pyfloat = Finite rat | PosInf | NegInf | NaN

text \<open>
  What \<^verbatim>\<open>json.loads\<close> returns: \<^verbatim>\<open>None\<close>, \<^verbatim>\<open>bool\<close>, \<^verbatim>\<open>int\<close>, \<^verbatim>\<open>float\<close>, \<^verbatim>\<open>str\<close>,
  \<^verbatim>\<open>list\<close> or \<^verbatim>\<open>dict\<close>. A dict is kept as its list of items; \<open>map_of\<close> is the lookup.
\<close>

datatype json =
    JNull
  | JBool bool
  | JInt int
  | JFloat pyfloat
  | JStr string
  | JArr "json list"
  | JObj "(string \<times> json) list"

text \<open>Python's truth value of such a value (\<^verbatim>\<open>if x:\<close>).\<close>

fun truthy :: "json \<Rightarrow> bool" where
  "truthy JNull = False"
| "truthy (JBool b) = b"
| "truthy (JInt i) = (i \<noteq> 0)"
| "truthy (JFloat (Finite q)) = (q \<noteq> 0)"
| "truthy (JFloat _) = True"
| "truthy (JStr s) = (s \<noteq> [])"
| "truthy (JArr xs) = (xs \<noteq> [])"
| "truthy (JObj kvs) = (kvs \<noteq> [])"

text \<open>The truth value of an \<^verbatim>\<open>Optional[str]\<close>: \<^verbatim>\<open>None\<close> and the empty string are false.\<close>

fun truthy_str :: "string option \<Rightarrow> bool" where
  "truthy_str None = False"
| "truthy_str (Some s) = (s \<noteq> [])"

text \<open>\<^verbatim>\<open>dict.get(key)\<close>: the value, or \<^verbatim>\<open>None\<close> when the key is absent.\<close>

definition dict_get :: "(string \<times> json) list \<Rightarrow> string \<Rightarrow> json" where
  "dict_get kvs k = (case map_of kvs k of None \<Rightarrow> JNull | Some v \<Rightarrow> v)"

text \<open>\<^verbatim>\<open>str(n)\<close> of an integer: its decimal digits, with a sign when negative.\<close>

definition digit :: "nat \<Rightarrow> char" where
  "digit n = ''0123456789'' ! n"

fun str_nat :: "nat \<Rightarrow> string" where
  "str_nat n = (if n < 10 then [digit n] else str_nat (n div 10) @ [digit (n mod 10)])"

declare str_nat.simps [simp del]

definition str_int :: "int \<Rightarrow> string" where
  "str_int i = (if i < 0 then CHR ''-'' # str_nat (nat (- i)) else str_nat (nat i))"

text \<open>Exceptions (instances of \<^verbatim>\<open>Exception\<close>) as values.\<close>

datatype exn = TypeError | Raised string

text \<open>A request body or a WebSocket frame: \<^verbatim>\<open>bytes\<close> or \<^verbatim>\<open>str\<close>.\<close>

datatype content = Bytes string | Text string

text \<open>
  Modelled from the spec: the event classes of \<^verbatim>\<open>event.py\<close>, which is not among the source
  files. An event carries \<^verbatim>\<open>self_id\<close> and, when it is a lifecycle event, \<^verbatim>\<open>sub_type\<close>; the
  adapter reads nothing else of it. \<open>lifecycle\<close> is \<^verbatim>\<open>isinstance(event, LifecycleMetaEvent)\<close>,
  \<open>parsed_from\<close> is the object the event was parsed from. A parsed event is always true
  as a Python condition.
\<close>

record event =
  lifecycle :: bool
  sub_type :: string
  self_id :: int
  parsed_from :: json

type_synonym model = "json \<Rightarrow> exn + event"

subsection \<open>Collaborators outside the file\<close>

text \<open>
  The functions the adapter calls and does not define, as parameters:
  \<^item> \<open>encode_utf8\<close>: \<^verbatim>\<open>str.encode("utf-8")\<close>;
  \<^item> \<open>hmac_sha1_hexdigest key body\<close>: \<^verbatim>\<open>hmac.new(key, body, "sha1").hexdigest()\<close>;
  \<^item> \<open>get_auth_bearer\<close>: the helper of \<^verbatim>\<open>utils.py\<close> that reads the bearer token of the
    \<^verbatim>\<open>Authorization\<close> header;
  \<^item> \<open>json_loads\<close>: \<^verbatim>\<open>json.loads\<close>, which raises on malformed text;
  \<^item> \<open>py_repr\<close>: \<^verbatim>\<open>str(x)\<close> for a float, a list or a dict;
  \<^item> \<open>get_event_model\<close>: the registry lookup of \<^verbatim>\<open>event.py\<close>, from a key to the ordered
    list of candidate models, each with its \<^verbatim>\<open>parse_obj\<close>;
  \<^item> \<open>Event_parse_obj\<close>: \<^verbatim>\<open>Event.parse_obj\<close>, the parser of the generic envelope.
\<close>

record deps =
  encode_utf8 :: "string \<Rightarrow> string"
  hmac_sha1_hexdigest :: "string \<Rightarrow> string \<Rightarrow> string"
  get_auth_bearer :: "string option \<Rightarrow> string option"
  json_loads :: "content \<Rightarrow> exn + json"
  py_repr :: "json \<Rightarrow> string"
  get_event_model :: "string \<Rightarrow> model list"
  Event_parse_obj :: "model"

text \<open>\<^verbatim>\<open>str(x)\<close>, as the f-strings of \<^verbatim>\<open>json_to_event\<close> apply it.\<close>

fun py_str :: "deps \<Rightarrow> json \<Rightarrow> string" where
  "py_str d JNull = ''None''"
| "py_str d (JBool b) = (if b then ''True'' else ''False'')"
| "py_str d (JInt i) = str_int i"
| "py_str d (JStr s) = s"
| "py_str d v = py_repr d v"

subsection \<open>Sessions and observable actions\<close>

text \<open>
  A \<^verbatim>\<open>Bot(self, self_id)\<close>. The second field records which handler built the object and
  stands for the object's identity.
\<close>

datatype origin = ViaHttp | ViaWs | ViaForward

record bot =
  bot_id :: string
  built_by :: origin

type_synonym bots = "string \<rightharpoonup> bot"

text \<open>
  The registry of the framework's base adapter, a dict keyed by \<^verbatim>\<open>self_id\<close>:
  \<^verbatim>\<open>bot_connect\<close> stores the bot under its key, \<^verbatim>\<open>bot_disconnect\<close> pops the key.
\<close>

definition bot_connect :: "bots \<Rightarrow> bot \<Rightarrow> bots" where
  "bot_connect bs b = bs(bot_id b \<mapsto> b)"

definition bot_disconnect :: "bots \<Rightarrow> bot \<Rightarrow> bots" where
  "bot_disconnect bs b = bs(bot_id b := None)"

datatype level = DEBUG | WARNING | ERROR

text \<open>
  The log calls of the file, each with the data it formats in:
  \<^item> \<open>MissingSelfID\<close>: "Missing X-Self-ID Header";
  \<^item> \<open>DuplicateBot i\<close>: "There's already a bot i, ignored";
  \<^item> \<open>MissingSignatureHeader\<close>: "Missing Signature Header";
  \<^item> \<open>InvalidSignatureHeader\<close>: "Signature Header is invalid";
  \<^item> \<open>AuthMessage m\<close>: the message \<open>m\<close> of \<^verbatim>\<open>_check_access_token\<close>;
  \<^item> \<open>WsProcessError i e\<close>: "Error while process data from websocket for bot i", with \<open>e\<close>;
  \<^item> \<open>ForwardSetupError e\<close>: "Error while setup websocket to url. Trying to reconnect...";
  \<^item> \<open>ForwardProcessError e\<close>: "Error while process data from websocket url. Trying to
    reconnect...";
  \<^item> \<open>EventParserError e\<close>: "Event Parser Error", with \<open>e\<close>;
  \<^item> \<open>FailedToParse j e\<close>: "Failed to parse event. Raw: " and \<^verbatim>\<open>str(json_data)\<close>, with \<open>e\<close>.
\<close>

datatype log_msg =
    MissingSelfID
  | DuplicateBot string
  | MissingSignatureHeader
  | InvalidSignatureHeader
  | AuthMessage string
  | WsProcessError string exn
  | ForwardSetupError exn
  | ForwardProcessError exn
  | EventParserError exn
  | FailedToParse json exn

text \<open>
  What a handler does to the outside, in order: log calls, \<^verbatim>\<open>ResultStore.add_result\<close>,
  \<^verbatim>\<open>websocket.accept()\<close>, \<^verbatim>\<open>websocket.close(code, reason)\<close>, \<^verbatim>\<open>websocket.close()\<close>,
  \<^verbatim>\<open>bot_connect\<close>, \<^verbatim>\<open>bot_disconnect\<close>, \<^verbatim>\<open>asyncio.create_task(bot.handle_event(event))\<close>,
  opening the forward socket with the request's headers, and
  \<^verbatim>\<open>asyncio.sleep(RECONNECT_INTERVAL)\<close>.
\<close>

datatype action =
    Log level log_msg
  | AddResult json
  | WsAccept
  | WsCloseWith nat "string option"
  | WsClose
  | BotConnect bot
  | BotDisconnect bot
  | Dispatch bot event
  | WsOpen "(string \<times> string) list"
  | Sleep

subsection \<open>\<^verbatim>\<open>json_to_event\<close>\<close>

text \<open>
  Lines 269 to 274: the name handed to \<^verbatim>\<open>get_event_model\<close>. The two \<^verbatim>\<open>get\<close> calls and the
  f-strings cannot raise; \<^verbatim>\<open>post_type + detail_type + sub_type\<close> raises \<^verbatim>\<open>TypeError\<close> unless
  \<^verbatim>\<open>post_type\<close> is a \<^verbatim>\<open>str\<close>, the other two being strings by then.
\<close>

definition segment :: "deps \<Rightarrow> json \<Rightarrow> string" where
  "segment d v = (if truthy v then ''.'' @ py_str d v else '''')"

definition event_name :: "deps \<Rightarrow> (string \<times> json) list \<Rightarrow> json \<Rightarrow> exn + string" where
  "event_name d kvs post_type =
     (let detail_type = segment d (dict_get kvs (py_str d post_type @ ''_type''));
          sub = segment d (dict_get kvs ''sub_type'')
      in case post_type of
           JStr p \<Rightarrow> Inr (p @ detail_type @ sub)
         | _ \<Rightarrow> Inl TypeError)"

text \<open>
  Lines 275 to 280: the \<^verbatim>\<open>for\<close> loop over the candidate models. The result is the first
  event parsed, if any, and one debug log for every candidate that raised before it.
\<close>

fun try_models :: "model list \<Rightarrow> json \<Rightarrow> event option \<times> action list" where
  "try_models [] j = (None, [])"
| "try_models (m # ms) j =
     (case m j of
        Inr ev \<Rightarrow> (Some ev, [])
      | Inl e \<Rightarrow>
          (case try_models ms j of
             (r, logs) \<Rightarrow> (r, Log DEBUG (EventParserError e) # logs)))"

text \<open>
  The whole function: the event returned (or \<^verbatim>\<open>None\<close>) and the actions performed. The
  \<^verbatim>\<open>else\<close> of the \<^verbatim>\<open>for\<close> loop runs when no candidate parsed; an exception anywhere inside the
  outer \<^verbatim>\<open>try\<close> is logged with the payload and the function falls off its end.
\<close>

definition json_to_event :: "deps \<Rightarrow> json \<Rightarrow> event option \<times> action list" where
  "json_to_event d json_data =
     (case json_data of
        JObj kvs \<Rightarrow>
          (case map_of kvs ''post_type'' of
             None \<Rightarrow> (None, [AddResult json_data])
           | Some post_type \<Rightarrow>
               (case event_name d kvs post_type of
                  Inl e \<Rightarrow> (None, [Log ERROR (FailedToParse json_data e)])
                | Inr name \<Rightarrow>
                    (case try_models (get_event_model d name) json_data of
                       (Some ev, logs) \<Rightarrow> (Some ev, logs)
                     | (None, logs) \<Rightarrow>
                         (case Event_parse_obj d json_data of
                            Inr ev \<Rightarrow> (Some ev, logs)
                          | Inl e \<Rightarrow>
                              (None, logs @ [Log ERROR (FailedToParse json_data e)])))))
      | _ \<Rightarrow> (None, []))"

subsection \<open>Requests, configuration and responses\<close>

text \<open>
  A \<^verbatim>\<open>Request\<close>: its headers, looked up by lower-case name, and its body. A \<^verbatim>\<open>Config\<close>
  with the two optional strings the handlers read. A \<^verbatim>\<open>Response(status, content=...)\<close>.
\<close>

record request =
  headers :: "string \<rightharpoonup> string"
  content :: "content option"

record config =
  secret :: "string option"
  access_token :: "string option"
  ws_urls :: "string list"

record response =
  status :: nat
  body :: "string option"

definition Response :: "nat \<Rightarrow> string option \<Rightarrow> response" where
  "Response code c = \<lparr>status = code, body = c\<rparr>"

subsection \<open>\<^verbatim>\<open>_check_signature\<close> and \<^verbatim>\<open>_check_access_token\<close>\<close>

text \<open>Lines 159 to 163: the body as bytes.\<close>

definition body_bytes :: "deps \<Rightarrow> content \<Rightarrow> string" where
  "body_bytes d c = (case c of Bytes b \<Rightarrow> b | Text s \<Rightarrow> encode_utf8 d s)"

text \<open>
  \<^verbatim>\<open>_check_signature\<close>: the rejection, or \<^verbatim>\<open>None\<close> when the function falls off its end, and the
  warnings logged. \<^verbatim>\<open>if secret:\<close> is false for \<^verbatim>\<open>None\<close> and for the empty string.
\<close>

definition check_signature :: "deps \<Rightarrow> config \<Rightarrow> request \<Rightarrow> response option \<times> action list" where
  "check_signature d cfg req =
     (let x_signature = headers req ''x-signature'' in
      case secret cfg of
        None \<Rightarrow> (None, [])
      | Some s \<Rightarrow>
          if s = [] then (None, [])
          else if \<not> truthy_str x_signature then
            (Some (Response 401 (Some ''Missing Signature'')), [Log WARNING MissingSignatureHeader])
          else
            (case content req of
               None \<Rightarrow> (Some (Response 400 (Some ''Missing Content'')), [])
             | Some c \<Rightarrow>
                 (let sig = hmac_sha1_hexdigest d (encode_utf8 d s) (body_bytes d c) in
                  if x_signature \<noteq> Some (''sha1='' @ sig) then
                    (Some (Response 403 (Some ''Signature is invalid'')),
                     [Log WARNING InvalidSignatureHeader])
                  else (None, []))))"

definition check_access_token :: "deps \<Rightarrow> config \<Rightarrow> request \<Rightarrow> response option \<times> action list" where
  "check_access_token d cfg req =
     (let token = get_auth_bearer d (headers req ''authorization'') in
      if truthy_str (access_token cfg) \<and> access_token cfg \<noteq> token then
        (let msg = (if truthy_str token then ''Authorization Header is invalid''
                    else ''Missing Authorization Header'')
         in (Some (Response 403 (Some msg)), [Log WARNING (AuthMessage msg)]))
      else (None, []))"

subsection \<open>\<^verbatim>\<open>_handle_http\<close>\<close>

text \<open>
  The handler returns a response or raises (\<^verbatim>\<open>json.loads\<close> is not guarded here); with it the
  registry afterwards and the actions performed.
\<close>

definition handle_http ::
  "deps \<Rightarrow> config \<Rightarrow> request \<Rightarrow> bots \<Rightarrow> (exn + response) \<times> bots \<times> action list" where
  "handle_http d cfg req bs =
     (case headers req ''x-self-id'' of
        None \<Rightarrow>
          (Inr (Response 400 (Some ''Missing X-Self-ID Header'')), bs, [Log WARNING MissingSelfID])
      | Some sid \<Rightarrow>
          if sid = [] then
            (Inr (Response 400 (Some ''Missing X-Self-ID Header'')), bs, [Log WARNING MissingSelfID])
          else
            (case check_signature d cfg req of
               (Some r, a1) \<Rightarrow> (Inr r, bs, a1)
             | (None, a1) \<Rightarrow>
                 (case check_access_token d cfg req of
                    (Some r, a2) \<Rightarrow> (Inr r, bs, a1 @ a2)
                  | (None, a2) \<Rightarrow>
                      (case content req of
                         None \<Rightarrow> (Inr (Response 204 None), bs, a1 @ a2)
                       | Some data \<Rightarrow>
                           (case json_loads d data of
                              Inl e \<Rightarrow> (Inl e, bs, a1 @ a2)
                            | Inr json_data \<Rightarrow>
                                (case json_to_event d json_data of
                                   (None, a3) \<Rightarrow> (Inr (Response 204 None), bs, a1 @ a2 @ a3)
                                 | (Some ev, a3) \<Rightarrow>
                                     (case bs sid of
                                        Some b \<Rightarrow>
                                          (Inr (Response 204 None), bs,
                                           a1 @ a2 @ a3 @ [Dispatch b ev])
                                      | None \<Rightarrow>
                                          (let b = \<lparr>bot_id = sid, built_by = ViaHttp\<rparr> in
                                           (Inr (Response 204 None), bot_connect bs b,
                                            a1 @ a2 @ a3 @ [BotConnect b, Dispatch b ev])))))))))"

subsection \<open>\<^verbatim>\<open>_handle_ws\<close>\<close>

text \<open>
  What the other end of a WebSocket does: the handshake request, whether \<^verbatim>\<open>accept()\<close> or
  \<^verbatim>\<open>close()\<close> raise, and what the successive \<^verbatim>\<open>receive()\<close> calls give, a frame or an
  exception. When the list is used up the handler is still waiting in \<^verbatim>\<open>receive()\<close>.
\<close>

datatype recv = Frame content | RecvError exn

record websocket =
  ws_request :: request
  accept_error :: "exn option"
  close_error :: "exn option"
  incoming :: "recv list"

text \<open>How a handler stands: it returned, it raised, or it waits for the next frame.\<close>

datatype outcome = Returned | Raises exn | Receiving

text \<open>
  The first three statements of both receive loops: \<^verbatim>\<open>receive()\<close>, \<^verbatim>\<open>json.loads\<close>,
  \<^verbatim>\<open>json_to_event\<close>. \<open>Inl\<close> is the exception that leaves the loop body.
\<close>

definition receive_event :: "deps \<Rightarrow> recv \<Rightarrow> exn + (event option \<times> action list)" where
  "receive_event d f =
     (case f of
        RecvError e \<Rightarrow> Inl e
      | Frame data \<Rightarrow>
          (case json_loads d data of
             Inl e \<Rightarrow> Inl e
           | Inr json_data \<Rightarrow> Inr (json_to_event d json_data)))"

text \<open>
  Lines 127 to 132, the \<^verbatim>\<open>while True\<close> loop: the exception that ended it (\<open>None\<close> while it
  still waits) and the actions performed.
\<close>

fun ws_recv :: "deps \<Rightarrow> bot \<Rightarrow> recv list \<Rightarrow> exn option \<times> action list" where
  "ws_recv d b [] = (None, [])"
| "ws_recv d b (f # fs) =
     (case receive_event d f of
        Inl e \<Rightarrow> (Some e, [])
      | Inr (ev, acts) \<Rightarrow>
          (case ws_recv d b fs of
             (r, rest) \<Rightarrow>
               (r, acts @ (case ev of Some e \<Rightarrow> [Dispatch b e] | None \<Rightarrow> []) @ rest)))"

text \<open>
  Lines 140 to 145, the \<^verbatim>\<open>finally\<close> block: \<^verbatim>\<open>close()\<close> with its exception swallowed, then
  \<^verbatim>\<open>bot_disconnect\<close>.
\<close>

definition ws_finally :: "websocket \<Rightarrow> bot \<Rightarrow> bots \<Rightarrow> bots \<times> action list" where
  "ws_finally ws b bs =
     (case close_error ws of
        None \<Rightarrow> (bot_disconnect bs b, [WsClose, BotDisconnect b])
      | Some e \<Rightarrow> (bot_disconnect bs b, [WsClose, BotDisconnect b]))"

text \<open>A \<^verbatim>\<open>close(code, reason)\<close> of the handshake followed by \<^verbatim>\<open>return\<close>.\<close>

definition reject :: "websocket \<Rightarrow> outcome" where
  "reject ws = (case close_error ws of None \<Rightarrow> Returned | Some e \<Rightarrow> Raises e)"

definition handle_ws ::
  "deps \<Rightarrow> config \<Rightarrow> websocket \<Rightarrow> bots \<Rightarrow> outcome \<times> bots \<times> action list" where
  "handle_ws d cfg ws bs =
     (case headers (ws_request ws) ''x-self-id'' of
        None \<Rightarrow>
          (reject ws, bs,
           [Log WARNING MissingSelfID, WsCloseWith 1008 (Some ''Missing X-Self-ID Header'')])
      | Some sid \<Rightarrow>
          if sid = [] then
            (reject ws, bs,
             [Log WARNING MissingSelfID, WsCloseWith 1008 (Some ''Missing X-Self-ID Header'')])
          else if sid \<in> dom bs then
            (reject ws, bs,
             [Log WARNING (DuplicateBot sid), WsCloseWith 1008 (Some ''Duplicate X-Self-ID'')])
          else
            (case check_access_token d cfg (ws_request ws) of
               (Some r, a1) \<Rightarrow> (reject ws, bs, a1 @ [WsCloseWith 1008 (body r)])
             | (None, a1) \<Rightarrow>
                 (case accept_error ws of
                    Some e \<Rightarrow> (Raises e, bs, a1 @ [WsAccept])
                  | None \<Rightarrow>
                      (let b = \<lparr>bot_id = sid, built_by = ViaWs\<rparr>;
                           bs1 = bot_connect bs b
                       in case ws_recv d b (incoming ws) of
                            (None, acts) \<Rightarrow>
                              (Receiving, bs1, a1 @ [WsAccept, BotConnect b] @ acts)
                          | (Some e, acts) \<Rightarrow>
                              (case ws_finally ws b bs1 of
                                 (bs2, fin) \<Rightarrow>
                                   (Returned, bs2,
                                    a1 @ [WsAccept, BotConnect b] @ acts
                                    @ [Log ERROR (WsProcessError sid e)] @ fin))))))"

subsection \<open>\<^verbatim>\<open>_forward_ws\<close>\<close>

text \<open>
  Lines 228 to 239, one pass of the inner loop body after \<^verbatim>\<open>json_to_event\<close> returned \<open>ev\<close>:
  the new value of \<^verbatim>\<open>bot\<close>, the registry and the actions. Without a bot, only a
  \<^verbatim>\<open>LifecycleMetaEvent\<close> whose \<^verbatim>\<open>sub_type\<close> is \<^verbatim>\<open>"connect"\<close> gets past the \<^verbatim>\<open>continue\<close>; it builds
  \<^verbatim>\<open>Bot(self, str(self_id))\<close>, registers it, and is dispatched like every later event.
\<close>

definition forward_event ::
  "event option \<Rightarrow> bot option \<Rightarrow> bots \<Rightarrow> bot option \<times> bots \<times> action list" where
  "forward_event ev bt bs =
     (case ev of
        None \<Rightarrow> (bt, bs, [])
      | Some e \<Rightarrow>
          (case bt of
             None \<Rightarrow>
               if \<not> lifecycle e \<or> sub_type e \<noteq> ''connect'' then (bt, bs, [])
               else
                 (let b = \<lparr>bot_id = str_int (self_id e), built_by = ViaForward\<rparr> in
                  (Some b, bot_connect bs b, [BotConnect b, Dispatch b e]))
           | Some b \<Rightarrow> (bt, bs, [Dispatch b e])))"

text \<open>
  Lines 223 to 251, the inner \<^verbatim>\<open>while True\<close> loop. The first component tells whether the loop
  was left by \<^verbatim>\<open>break\<close> (after \<^verbatim>\<open>close()\<close>, its exception swallowed, and the error log); it is
  \<open>False\<close> while the loop still waits in \<^verbatim>\<open>receive()\<close>.
\<close>

fun forward_recv ::
  "deps \<Rightarrow> recv list \<Rightarrow> bot option \<Rightarrow> bots \<Rightarrow> bool \<times> bot option \<times> bots \<times> action list" where
  "forward_recv d [] bt bs = (False, bt, bs, [])"
| "forward_recv d (f # fs) bt bs =
     (case receive_event d f of
        Inl e \<Rightarrow> (True, bt, bs, [WsClose, Log ERROR (ForwardProcessError e)])
      | Inr (ev, acts) \<Rightarrow>
          (case forward_event ev bt bs of
             (bt1, bs1, acts1) \<Rightarrow>
               (case forward_recv d fs bt1 bs1 of
                  (broke, bt2, bs2, rest) \<Rightarrow> (broke, bt2, bs2, acts @ acts1 @ rest))))"

text \<open>Lines 252 to 255, the \<^verbatim>\<open>finally\<close> block of one connection.\<close>

definition forward_finally :: "bot option \<Rightarrow> bots \<Rightarrow> bot option \<times> bots \<times> action list" where
  "forward_finally bt bs =
     (case bt of
        Some b \<Rightarrow> (None, bot_disconnect bs b, [BotDisconnect b])
      | None \<Rightarrow> (bt, bs, []))"

text \<open>Lines 202 to 204: the headers of the client request.\<close>

definition forward_headers :: "config \<Rightarrow> (string \<times> string) list" where
  "forward_headers cfg =
     (case access_token cfg of
        None \<Rightarrow> []
      | Some t \<Rightarrow> if t = [] then [] else [(''Authorization'', ''Bearer '' @ t)])"

text \<open>
  Lines 209 to 257, the outer \<^verbatim>\<open>while True\<close> loop, over the results of the successive
  attempts to open the socket. It never returns: the result is how far the given
  attempts take it, with the value of \<^verbatim>\<open>bot\<close>, the registry and the actions so far.
\<close>

datatype attempt = ConnectError exn | Connected websocket

fun forward_loop ::
  "deps \<Rightarrow> config \<Rightarrow> attempt list \<Rightarrow> bot option \<Rightarrow> bots \<Rightarrow> bot option \<times> bots \<times> action list" where
  "forward_loop d cfg [] bt bs = (bt, bs, [])"
| "forward_loop d cfg (ConnectError e # as) bt bs =
     (case forward_loop d cfg as bt bs of
        (bt', bs', rest) \<Rightarrow>
          (bt', bs', [WsOpen (forward_headers cfg), Log ERROR (ForwardSetupError e), Sleep] @ rest))"
| "forward_loop d cfg (Connected ws # as) bt bs =
     (case forward_recv d (incoming ws) bt bs of
        (False, bt1, bs1, acts) \<Rightarrow> (bt1, bs1, WsOpen (forward_headers cfg) # acts)
      | (True, bt1, bs1, acts) \<Rightarrow>
          (case forward_finally bt1 bs1 of
             (bt2, bs2, fin) \<Rightarrow>
               (case forward_loop d cfg as bt2 bs2 of
                  (bt', bs', rest) \<Rightarrow>
                    (bt', bs', WsOpen (forward_headers cfg) # acts @ fin @ [Sleep] @ rest))))"

text \<open>\<^verbatim>\<open>_forward_ws\<close> itself: \<^verbatim>\<open>bot\<close> starts as \<^verbatim>\<open>None\<close>.\<close>

definition forward_ws ::
  "deps \<Rightarrow> config \<Rightarrow> attempt list \<Rightarrow> bots \<Rightarrow> bot option \<times> bots \<times> action list" where
  "forward_ws d cfg attempts bs = forward_loop d cfg attempts None bs"

subsection \<open>A concrete setting for examples\<close>

text \<open>
  Stand-ins for the collaborators, used to run the handlers on concrete inputs. The
  digest table holds one real value: HMAC-SHA1 of the body \<^verbatim>\<open>{}\<close> under the key \<^verbatim>\<open>key\<close>.
  The registry has the lifecycle model before the generic envelope for the key
  \<^verbatim>\<open>meta_event.lifecycle.connect\<close> and the envelope alone for every other key.
\<close>

definition sample_hmac :: "string \<Rightarrow> string \<Rightarrow> string" where
  "sample_hmac k b =
     (if k = ''key'' \<and> b = ''{}'' then ''c9963b837183dc667106461b3de91d0885f539b3''
      else ''0000000000000000000000000000000000000000'')"

definition sample_bearer :: "string option \<Rightarrow> string option" where
  "sample_bearer h =
     (case h of
        None \<Rightarrow> None
      | Some s \<Rightarrow> if take 7 s = ''Bearer '' then Some (drop 7 s) else None)"

definition sample_Event :: model where
  "sample_Event j =
     (case j of
        JObj kvs \<Rightarrow>
          (case map_of kvs ''self_id'' of
             Some (JInt i) \<Rightarrow> Inr \<lparr>lifecycle = False, sub_type = [], self_id = i, parsed_from = j\<rparr>
           | _ \<Rightarrow> Inl (Raised ''ValidationError''))
      | _ \<Rightarrow> Inl (Raised ''ValidationError''))"

definition sample_Lifecycle :: model where
  "sample_Lifecycle j =
     (case j of
        JObj kvs \<Rightarrow>
          (case (map_of kvs ''self_id'', map_of kvs ''sub_type'') of
             (Some (JInt i), Some (JStr s)) \<Rightarrow>
               Inr \<lparr>lifecycle = True, sub_type = s, self_id = i, parsed_from = j\<rparr>
           | _ \<Rightarrow> Inl (Raised ''ValidationError''))
      | _ \<Rightarrow> Inl (Raised ''ValidationError''))"

definition sample_models :: "string \<Rightarrow> model list" where
  "sample_models name =
     (if name = ''meta_event.lifecycle.connect'' then [sample_Lifecycle, sample_Event]
      else [sample_Event])"

definition connect_json :: json where
  "connect_json =
     JObj [(''post_type'', JStr ''meta_event''), (''meta_event_type'', JStr ''lifecycle''),
           (''sub_type'', JStr ''connect''), (''self_id'', JInt 42)]"

definition message_json :: json where
  "message_json =
     JObj [(''post_type'', JStr ''message''), (''message_type'', JStr ''private''),
           (''sub_type'', JStr ''friend''), (''self_id'', JInt 42)]"

definition result_json :: json where
  "result_json = JObj [(''status'', JStr ''ok''), (''retcode'', JInt 0)]"

definition broken_json :: json where
  "broken_json = JObj [(''post_type'', JStr ''message'')]"

text \<open>The texts that the stand-in for \<^verbatim>\<open>json.loads\<close> knows; every other text is malformed.\<close>

definition connect_text :: string where
  \<open>connect_text =
     ''{"post_type": "meta_event", "meta_event_type": "lifecycle", "sub_type": "connect", "self_id": 42}''\<close>

definition message_text :: string where
  \<open>message_text =
     ''{"post_type": "message", "message_type": "private", "sub_type": "friend", "self_id": 42}''\<close>

definition result_text :: string where
  \<open>result_text = ''{"status": "ok", "retcode": 0}''\<close>

definition broken_text :: string where
  \<open>broken_text = ''{"post_type": "message"}''\<close>

definition sample_loads :: "content \<Rightarrow> exn + json" where
  "sample_loads c =
     (let s = (case c of Bytes b \<Rightarrow> b | Text t \<Rightarrow> t) in
      if s = ''{}'' then Inr (JObj [])
      else if s = connect_text then Inr connect_json
      else if s = message_text then Inr message_json
      else if s = result_text then Inr result_json
      else if s = broken_text then Inr broken_json
      else Inl (Raised ''JSONDecodeError''))"

definition sample_deps :: deps where
  "sample_deps =
     \<lparr>encode_utf8 = (\<lambda>s. s), hmac_sha1_hexdigest = sample_hmac,
      get_auth_bearer = sample_bearer, json_loads = sample_loads,
      py_repr = (\<lambda>v. ''repr''), get_event_model = sample_models,
      Event_parse_obj = sample_Event\<rparr>"

text \<open>Configurations and HTTP requests for the examples.\<close>

definition full_config :: config where
  "full_config = \<lparr>secret = Some ''key'', access_token = Some ''abc'', ws_urls = []\<rparr>"

definition secret_config :: config where
  "secret_config = \<lparr>secret = Some ''key'', access_token = None, ws_urls = []\<rparr>"

definition token_config :: config where
  "token_config = \<lparr>secret = None, access_token = Some ''abc'', ws_urls = []\<rparr>"

definition anonymous_request :: request where
  "anonymous_request = \<lparr>headers = Map.empty, content = Some (Text ''{}'')\<rparr>"

definition unsigned_request :: request where
  "unsigned_request = \<lparr>headers = [''x-self-id'' \<mapsto> ''42''], content = Some (Text ''{}'')\<rparr>"

definition signed_request :: request where
  "signed_request =
     \<lparr>headers = [''x-self-id'' \<mapsto> ''42'',
                  ''x-signature'' \<mapsto> ''sha1=c9963b837183dc667106461b3de91d0885f539b3''],
      content = Some (Text ''{}'')\<rparr>"

definition empty_signed_request :: request where
  "empty_signed_request =
     \<lparr>headers = [''x-self-id'' \<mapsto> ''42'',
                  ''x-signature'' \<mapsto> ''sha1=c9963b837183dc667106461b3de91d0885f539b3''],
      content = None\<rparr>"

definition forged_request :: request where
  "forged_request =
     \<lparr>headers = [''x-self-id'' \<mapsto> ''42'',
                  ''x-signature'' \<mapsto> ''sha1=0123456789abcdef0123456789abcdef01234567''],
      content = Some (Text ''{}'')\<rparr>"

definition bearer_request :: request where
  "bearer_request =
     \<lparr>headers = [''x-self-id'' \<mapsto> ''42'', ''authorization'' \<mapsto> ''Bearer abc''],
      content = None\<rparr>"

subsection \<open>The event name as the specification words it\<close>

text \<open>
  The name with each optional part included when the field is present and not null, to
  be compared with \<open>event_name\<close>.
\<close>

definition claimed_name :: "deps \<Rightarrow> (string \<times> json) list \<Rightarrow> string \<Rightarrow> string" where
  "claimed_name d kvs p =
     p @ (case map_of kvs (p @ ''_type'') of
            None \<Rightarrow> []
          | Some v \<Rightarrow> if v = JNull then [] else ''.'' @ py_str d v)
       @ (case map_of kvs ''sub_type'' of
            None \<Rightarrow> []
          | Some v \<Rightarrow> if v = JNull then [] else ''.'' @ py_str d v)"

text \<open>The values that are false as a Python condition.\<close>

definition falsy_values :: "json set" where
  "falsy_values = {JNull, JBool False, JInt 0, JFloat (Finite 0), JStr [], JArr [], JObj []}"

text \<open>An object whose \<^verbatim>\<open>post_type\<close> is a number, with the field the stand-in envelope needs.\<close>

definition numeric_json :: json where
  "numeric_json = JObj [(''post_type'', JInt 5), (''self_id'', JInt 42)]"

subsection \<open>Reading the actions of a run\<close>

text \<open>
  The actions of the decoder (logs and forwarded results), those on sessions, and those
  that tear a connection down.
\<close>

fun decoder_action :: "action \<Rightarrow> bool" where
  "decoder_action (Log l m) = True"
| "decoder_action (AddResult j) = True"
| "decoder_action a = False"

fun session_action :: "action \<Rightarrow> bool" where
  "session_action (BotConnect b) = True"
| "session_action (BotDisconnect b) = True"
| "session_action (Dispatch b e) = True"
| "session_action a = False"

fun teardown_action :: "action \<Rightarrow> bool" where
  "teardown_action WsClose = True"
| "teardown_action (WsCloseWith c r) = True"
| "teardown_action (BotDisconnect b) = True"
| "teardown_action a = False"

text \<open>
  The events that \<^verbatim>\<open>json_to_event\<close> returns for the frames of a connection, in order, up to
  the first exception that leaves the loop body.
\<close>

fun decoded :: "deps \<Rightarrow> recv list \<Rightarrow> event list" where
  "decoded d [] = []"
| "decoded d (f # fs) =
     (case receive_event d f of
        Inl e \<Rightarrow> []
      | Inr (None, acts) \<Rightarrow> decoded d fs
      | Inr (Some ev, acts) \<Rightarrow> ev # decoded d fs)"

text \<open>A lifecycle event with \<^verbatim>\<open>sub_type\<close> \<^verbatim>\<open>"connect"\<close>, and the bot built from it.\<close>

definition is_connect :: "event \<Rightarrow> bool" where
  "is_connect e = (lifecycle e \<and> sub_type e = ''connect'')"

definition forward_bot :: "event \<Rightarrow> bot" where
  "forward_bot e = \<lparr>bot_id = str_int (self_id e), built_by = ViaForward\<rparr>"

text \<open>WebSocket peers for the examples.\<close>

definition no_config :: config where
  "no_config = \<lparr>secret = None, access_token = None, ws_urls = []\<rparr>"

definition ws_42 :: "exn option \<Rightarrow> recv list \<Rightarrow> websocket" where
  "ws_42 ce fs =
     \<lparr>ws_request = \<lparr>headers = [''x-self-id'' \<mapsto> ''42''], content = None\<rparr>,
      accept_error = None, close_error = ce, incoming = fs\<rparr>"


definition bot_42 :: bot where
  "bot_42 = \<lparr>bot_id = ''42'', built_by = ViaWs\<rparr>"

definition message_event :: event where
  "message_event =
     \<lparr>lifecycle = False, sub_type = [], self_id = 42, parsed_from = message_json\<rparr>"

definition connect_event :: event where
  "connect_event =
     \<lparr>lifecycle = True, sub_type = ''connect'', self_id = 42, parsed_from = connect_json\<rparr>"

definition forward_bot_42 :: bot where
  "forward_bot_42 = \<lparr>bot_id = ''42'', built_by = ViaForward\<rparr>"

text \<open>
  A second registry for the examples: a model that asks for \<^verbatim>\<open>group_id\<close> stands before the
  envelope for the key \<^verbatim>\<open>message.private.friend\<close> and stands alone for every other key,
  so that a candidate fails before one parses, and the \<^verbatim>\<open>else\<close> of the loop is reached.
\<close>

definition sample_Group :: model where
  "sample_Group j =
     (case j of
        JObj kvs \<Rightarrow>
          (case (map_of kvs ''self_id'', map_of kvs ''group_id'') of
             (Some (JInt i), Some (JInt g)) \<Rightarrow>
               Inr \<lparr>lifecycle = False, sub_type = [], self_id = i, parsed_from = j\<rparr>
           | _ \<Rightarrow> Inl (Raised ''ValidationError''))
      | _ \<Rightarrow> Inl (Raised ''ValidationError''))"

definition cascade_models :: "string \<Rightarrow> model list" where
  "cascade_models name =
     (if name = ''message.private.friend'' then [sample_Group, sample_Event]
      else [sample_Group])"

definition cascade_deps :: deps where
  "cascade_deps = sample_deps\<lparr>get_event_model := cascade_models\<rparr>"

definition notice_json :: json where
  "notice_json = JObj [(''post_type'', JStr ''notice''), (''self_id'', JInt 42)]"

definition notice_event :: event where
  "notice_event = \<lparr>lifecycle = False, sub_type = [], self_id = 42, parsed_from = notice_json\<rparr>"

section \<open>Properties\<close>

subsection \<open>Auxiliary facts\<close>

text \<open>The equations that evaluate the handlers on the examples.\<close>

lemmas sample_defs = sample_deps_def sample_loads_def sample_models_def sample_Event_def
  sample_Lifecycle_def sample_bearer_def sample_hmac_def connect_text_def message_text_def
  result_text_def broken_text_def connect_json_def message_json_def result_json_def broken_json_def

lemmas eval_defs = receive_event_def json_to_event_def event_name_def segment_def dict_get_def
  Let_def forward_event_def bot_connect_def str_int_def str_nat.simps digit_def

lemma check_signature_pass_quiet:
  "fst (check_signature d cfg req) = None \<Longrightarrow> check_signature d cfg req = (None, [])"
  by (auto simp add: check_signature_def Let_def split: option.splits if_splits)

lemma check_access_token_pass_quiet:
  "fst (check_access_token d cfg req) = None \<Longrightarrow> check_access_token d cfg req = (None, [])"
  by (auto simp add: check_access_token_def Let_def split: option.splits if_splits)

lemma json_to_event_non_string:
  assumes "map_of kvs ''post_type'' = Some pt" and "\<forall>p. pt \<noteq> JStr p"
  shows "json_to_event d (JObj kvs) = (None, [Log ERROR (FailedToParse (JObj kvs) TypeError)])"
proof -
  have "event_name d kvs pt = Inl TypeError"
    using assms(2) by (cases pt) (simp_all add: event_name_def Let_def)
  with assms(1) show ?thesis
    by (simp add: json_to_event_def)
qed

subsection \<open>The signature check\<close>

text \<open>
  Claim C1. With a configured secret \<open>S\<close> (one that passes the test \<^verbatim>\<open>if secret:\<close>, so not
  the empty string) and a request that carries a body \<open>B\<close>, \<^verbatim>\<open>_check_signature\<close> lets the
  request pass exactly when the \<^verbatim>\<open>X-Signature\<close> header is \<^verbatim>\<open>sha1=\<close> followed by the hex
  digest of HMAC-SHA1 under the encoded secret over the body bytes. An absent header is
  answered with 401, and every rejection carries 401 or 403.
\<close>

theorem check_signature_accepts_iff:
  assumes "secret cfg = Some S" and "S \<noteq> []" and "content req = Some B"
  shows "((fst (check_signature d cfg req) = None) =
            (headers req ''x-signature'' =
               Some (''sha1='' @ hmac_sha1_hexdigest d (encode_utf8 d S) (body_bytes d B)))) \<and>
         (headers req ''x-signature'' = None \<longrightarrow>
            check_signature d cfg req =
              (Some (Response 401 (Some ''Missing Signature'')),
               [Log WARNING MissingSignatureHeader])) \<and>
         (fst (check_signature d cfg req) \<noteq> None \<longrightarrow>
            (\<exists>r. fst (check_signature d cfg req) = Some r \<and>
                 (status r = 401 \<or> status r = 403)))"
  using assms
  by (auto simp add: check_signature_def Let_def Response_def split: option.splits)

theorem check_signature_accepts_iff_witness:
  "fst (check_signature sample_deps secret_config signed_request) = None \<and>
   check_signature sample_deps secret_config unsigned_request =
     (Some (Response 401 (Some ''Missing Signature'')), [Log WARNING MissingSignatureHeader])"
  using check_signature_accepts_iff
      [of secret_config "''key''" signed_request "Text ''{}''" sample_deps]
    check_signature_accepts_iff
      [of secret_config "''key''" unsigned_request "Text ''{}''" sample_deps]
  by (simp add: secret_config_def signed_request_def unsigned_request_def sample_deps_def
      sample_hmac_def body_bytes_def)

subsection \<open>Classification of payloads\<close>

text \<open>
  Claim C3. A JSON value that is not an object gives no event and no action at all. An
  object without the key \<^verbatim>\<open>post_type\<close> gives no event either, and the one action is the
  call of \<^verbatim>\<open>ResultStore.add_result\<close> with the object itself, whatever else it holds.
\<close>

theorem json_to_event_classifies:
  "((\<forall>kvs. j \<noteq> JObj kvs) \<longrightarrow> json_to_event d j = (None, [])) \<and>
   (''post_type'' \<notin> fst ` set kvs \<longrightarrow>
      json_to_event d (JObj kvs) = (None, [AddResult (JObj kvs)]))"
proof (intro conjI impI)
  assume "\<forall>kvs. j \<noteq> JObj kvs"
  then show "json_to_event d j = (None, [])"
    by (cases j) (simp_all add: json_to_event_def)
next
  assume "''post_type'' \<notin> fst ` set kvs"
  then have "map_of kvs ''post_type'' = None"
    by (simp add: map_of_eq_None_iff)
  then show "json_to_event d (JObj kvs) = (None, [AddResult (JObj kvs)])"
    by (simp add: json_to_event_def)
qed

theorem json_to_event_classifies_witness:
  "json_to_event sample_deps (JArr [JInt 1]) = (None, []) \<and>
   json_to_event sample_deps result_json = (None, [AddResult result_json])"
  using json_to_event_classifies [of "JArr [JInt 1]" sample_deps
      "[(''status'', JStr ''ok''), (''retcode'', JInt 0)]"]
  by (simp add: result_json_def)

subsection \<open>The HTTP handler\<close>

text \<open>
  Claim C8. \<^verbatim>\<open>_handle_http\<close> checks the identity header, then the signature, then the
  token, and answers with the first failure: 400 without \<^verbatim>\<open>X-Self-ID\<close>, whatever the other
  headers are; with a secret configured, 401 without \<^verbatim>\<open>X-Signature\<close>, 400 without a body and
  403 on a wrong signature, whatever the token is; and, once the signature step has
  passed, 403 when an access token is configured and the bearer token is missing or
  different. No rejection touches the registry.
\<close>

theorem handle_http_rejections:
  "(\<not> truthy_str (headers req ''x-self-id'') \<longrightarrow>
      handle_http d cfg req bs =
        (Inr (Response 400 (Some ''Missing X-Self-ID Header'')), bs, [Log WARNING MissingSelfID])) \<and>
   (truthy_str (headers req ''x-self-id'') \<and> truthy_str (secret cfg) \<and>
    \<not> truthy_str (headers req ''x-signature'') \<longrightarrow>
      handle_http d cfg req bs =
        (Inr (Response 401 (Some ''Missing Signature'')), bs,
         [Log WARNING MissingSignatureHeader])) \<and>
   (truthy_str (headers req ''x-self-id'') \<and> truthy_str (secret cfg) \<and>
    truthy_str (headers req ''x-signature'') \<and> content req = None \<longrightarrow>
      handle_http d cfg req bs = (Inr (Response 400 (Some ''Missing Content'')), bs, [])) \<and>
   (truthy_str (headers req ''x-self-id'') \<and> secret cfg = Some s \<and> s \<noteq> [] \<and>
    truthy_str (headers req ''x-signature'') \<and> content req = Some c \<and>
    headers req ''x-signature'' \<noteq>
      Some (''sha1='' @ hmac_sha1_hexdigest d (encode_utf8 d s) (body_bytes d c)) \<longrightarrow>
      handle_http d cfg req bs =
        (Inr (Response 403 (Some ''Signature is invalid'')), bs,
         [Log WARNING InvalidSignatureHeader])) \<and>
   (truthy_str (headers req ''x-self-id'') \<and> fst (check_signature d cfg req) = None \<and>
    truthy_str (access_token cfg) \<and>
    get_auth_bearer d (headers req ''authorization'') \<noteq> access_token cfg \<longrightarrow>
      (\<exists>msg. handle_http d cfg req bs =
         (Inr (Response 403 (Some msg)), bs, [Log WARNING (AuthMessage msg)])))"
proof (intro conjI impI)
  assume "\<not> truthy_str (headers req ''x-self-id'')"
  then show "handle_http d cfg req bs =
      (Inr (Response 400 (Some ''Missing X-Self-ID Header'')), bs, [Log WARNING MissingSelfID])"
    by (cases "headers req ''x-self-id''") (simp_all add: handle_http_def)
next
  assume "truthy_str (headers req ''x-self-id'') \<and> truthy_str (secret cfg) \<and>
    \<not> truthy_str (headers req ''x-signature'')"
  then show "handle_http d cfg req bs =
      (Inr (Response 401 (Some ''Missing Signature'')), bs, [Log WARNING MissingSignatureHeader])"
    by (cases "headers req ''x-self-id''"; cases "secret cfg")
      (simp_all add: handle_http_def check_signature_def)
next
  assume "truthy_str (headers req ''x-self-id'') \<and> truthy_str (secret cfg) \<and>
    truthy_str (headers req ''x-signature'') \<and> content req = None"
  then show "handle_http d cfg req bs = (Inr (Response 400 (Some ''Missing Content'')), bs, [])"
    by (cases "headers req ''x-self-id''"; cases "secret cfg")
      (simp_all add: handle_http_def check_signature_def)
next
  assume "truthy_str (headers req ''x-self-id'') \<and> secret cfg = Some s \<and> s \<noteq> [] \<and>
    truthy_str (headers req ''x-signature'') \<and> content req = Some c \<and>
    headers req ''x-signature'' \<noteq>
      Some (''sha1='' @ hmac_sha1_hexdigest d (encode_utf8 d s) (body_bytes d c))"
  then show "handle_http d cfg req bs =
      (Inr (Response 403 (Some ''Signature is invalid'')), bs, [Log WARNING InvalidSignatureHeader])"
    by (cases "headers req ''x-self-id''")
      (simp_all add: handle_http_def check_signature_def)
next
  assume a: "truthy_str (headers req ''x-self-id'') \<and> fst (check_signature d cfg req) = None \<and>
    truthy_str (access_token cfg) \<and>
    get_auth_bearer d (headers req ''authorization'') \<noteq> access_token cfg"
  then have "check_signature d cfg req = (None, [])"
    by (simp add: check_signature_pass_quiet)
  with a show "\<exists>msg. handle_http d cfg req bs =
         (Inr (Response 403 (Some msg)), bs, [Log WARNING (AuthMessage msg)])"
    by (cases "headers req ''x-self-id''")
      (auto simp add: handle_http_def check_access_token_def Let_def)
qed

theorem handle_http_rejections_witness:
  "handle_http sample_deps full_config anonymous_request Map.empty =
     (Inr (Response 400 (Some ''Missing X-Self-ID Header'')), Map.empty,
      [Log WARNING MissingSelfID]) \<and>
   handle_http sample_deps full_config unsigned_request Map.empty =
     (Inr (Response 401 (Some ''Missing Signature'')), Map.empty,
      [Log WARNING MissingSignatureHeader]) \<and>
   handle_http sample_deps full_config empty_signed_request Map.empty =
     (Inr (Response 400 (Some ''Missing Content'')), Map.empty, []) \<and>
   handle_http sample_deps full_config forged_request Map.empty =
     (Inr (Response 403 (Some ''Signature is invalid'')), Map.empty,
      [Log WARNING InvalidSignatureHeader]) \<and>
   handle_http sample_deps full_config signed_request Map.empty =
     (Inr (Response 403 (Some ''Missing Authorization Header'')), Map.empty,
      [Log WARNING (AuthMessage ''Missing Authorization Header'')])"
  using
    handle_http_rejections
      [of anonymous_request sample_deps full_config Map.empty "''key''" "Text ''{}''"]
    handle_http_rejections
      [of unsigned_request sample_deps full_config Map.empty "''key''" "Text ''{}''"]
    handle_http_rejections
      [of empty_signed_request sample_deps full_config Map.empty "''key''" "Text ''{}''"]
    handle_http_rejections
      [of forged_request sample_deps full_config Map.empty "''key''" "Text ''{}''"]
    handle_http_rejections
      [of signed_request sample_deps full_config Map.empty "''key''" "Text ''{}''"]
  by (simp add: full_config_def anonymous_request_def unsigned_request_def
      empty_signed_request_def forged_request_def signed_request_def sample_deps_def
      sample_hmac_def sample_bearer_def body_bytes_def check_signature_def
      check_access_token_def handle_http_def Let_def)

text \<open>
  Claim C10. A request that has the identity header and passes the signature and token
  steps, and that carries no body, is answered with 204: nothing is parsed, logged or
  dispatched and the registry is as before.
\<close>

theorem handle_http_no_body:
  assumes "truthy_str (headers req ''x-self-id'')"
    and "fst (check_signature d cfg req) = None"
    and "fst (check_access_token d cfg req) = None"
    and "content req = None"
  shows "handle_http d cfg req bs = (Inr (Response 204 None), bs, [])"
  using assms check_signature_pass_quiet [OF assms(2)] check_access_token_pass_quiet [OF assms(3)]
  by (cases "headers req ''x-self-id''") (simp_all add: handle_http_def)

theorem handle_http_no_body_witness:
  "handle_http sample_deps token_config bearer_request Map.empty =
     (Inr (Response 204 None), Map.empty, [])"
  using handle_http_no_body [of bearer_request sample_deps token_config Map.empty]
  by (simp add: token_config_def bearer_request_def sample_deps_def sample_bearer_def
      check_signature_def check_access_token_def)

subsection \<open>The event name\<close>

lemma truthy_iff: "truthy v = (v \<notin> falsy_values)"
  by (cases v rule: truthy.cases) (auto simp add: falsy_values_def)

lemma segment_eq:
  "segment d (dict_get kvs k) =
     (case map_of kvs k of
        None \<Rightarrow> []
      | Some v \<Rightarrow> if v \<in> falsy_values then [] else ''.'' @ py_str d v)"
  by (simp add: segment_def dict_get_def truthy_iff falsy_values_def split: option.splits)

text \<open>
  Claim C9, as stated, fails: a \<^verbatim>\<open>sub_type\<close> that is present and is the empty string is not
  null, yet \<^verbatim>\<open>json_to_event\<close> leaves its part out, where the claim has a trailing dot.
\<close>

theorem event_name_empty_sub_type_counterexample:
  "event_name sample_deps
     [(''post_type'', JStr ''message''), (''message_type'', JStr ''private''),
      (''sub_type'', JStr []), (''self_id'', JInt 42)] (JStr ''message'') =
     Inr ''message.private'' \<and>
   claimed_name sample_deps
     [(''post_type'', JStr ''message''), (''message_type'', JStr ''private''),
      (''sub_type'', JStr []), (''self_id'', JInt 42)] ''message'' = ''message.private.''"
  by (simp add: event_name_def claimed_name_def segment_def dict_get_def)

text \<open>
  Claim C9, amended. When \<^verbatim>\<open>post_type\<close> is a string, the name is \<^verbatim>\<open>post_type\<close>, then a dot
  and \<^verbatim>\<open>str\<close> of the field \<^verbatim>\<open>{post_type}_type\<close>, then a dot and \<^verbatim>\<open>str\<close> of the field
  \<^verbatim>\<open>sub_type\<close>, each part included exactly when the field is present and its value is true
  as a Python condition: not null, false, zero, the empty string, the empty list or the
  empty object. When \<^verbatim>\<open>post_type\<close> is not a string, building the name raises
  \<^verbatim>\<open>TypeError\<close>, and \<^verbatim>\<open>json_to_event\<close> returns no event: its one action is the error log
  that carries the payload.
\<close>

theorem event_name_built:
  "event_name d kvs (JStr p) =
     Inr (p @ (case map_of kvs (p @ ''_type'') of
                 None \<Rightarrow> []
               | Some v \<Rightarrow> if v \<in> falsy_values then [] else ''.'' @ py_str d v)
            @ (case map_of kvs ''sub_type'' of
                 None \<Rightarrow> []
               | Some v \<Rightarrow> if v \<in> falsy_values then [] else ''.'' @ py_str d v)) \<and>
   ((\<forall>p. pt \<noteq> JStr p) \<longrightarrow> event_name d kvs pt = Inl TypeError) \<and>
   (map_of kvs ''post_type'' = Some pt \<and> (\<forall>p. pt \<noteq> JStr p) \<longrightarrow>
      json_to_event d (JObj kvs) = (None, [Log ERROR (FailedToParse (JObj kvs) TypeError)]))"
proof -
  have built: "event_name d kvs (JStr p) =
     Inr (p @ (case map_of kvs (p @ ''_type'') of
                 None \<Rightarrow> []
               | Some v \<Rightarrow> if v \<in> falsy_values then [] else ''.'' @ py_str d v)
            @ (case map_of kvs ''sub_type'' of
                 None \<Rightarrow> []
               | Some v \<Rightarrow> if v \<in> falsy_values then [] else ''.'' @ py_str d v))"
    by (simp add: event_name_def Let_def segment_eq)
  have raises: "event_name d kvs pt = Inl TypeError" if "\<forall>p. pt \<noteq> JStr p"
    using that by (cases pt) (simp_all add: event_name_def Let_def)
  have dropped: "json_to_event d (JObj kvs) =
      (None, [Log ERROR (FailedToParse (JObj kvs) TypeError)])"
    if "map_of kvs ''post_type'' = Some pt \<and> (\<forall>p. pt \<noteq> JStr p)"
    using that json_to_event_non_string [of kvs pt d] by blast
  from built raises dropped show ?thesis by blast
qed

theorem event_name_built_witness:
  "event_name sample_deps
     [(''post_type'', JStr ''message''), (''message_type'', JStr ''private''),
      (''sub_type'', JStr ''friend''), (''self_id'', JInt 42)] (JStr ''message'') =
     Inr ''message.private.friend'' \<and>
   event_name sample_deps [(''post_type'', JInt 5), (''self_id'', JInt 42)] (JInt 5) =
     Inl TypeError \<and>
   json_to_event sample_deps numeric_json =
     (None, [Log ERROR (FailedToParse numeric_json TypeError)])"
  using
    event_name_built
      [of sample_deps
        "[(''post_type'', JStr ''message''), (''message_type'', JStr ''private''),
          (''sub_type'', JStr ''friend''), (''self_id'', JInt 42)]" "''message''" "JInt 5"]
    event_name_built
      [of sample_deps "[(''post_type'', JInt 5), (''self_id'', JInt 42)]" "''message''" "JInt 5"]
  by (simp add: falsy_values_def numeric_json_def)

subsection \<open>The cascade of candidate models\<close>

lemma try_models_find:
  "fst (try_models ms j) =
     (case List.find (\<lambda>m. \<not> isl (m j)) ms of
        None \<Rightarrow> None
      | Some m \<Rightarrow> Some (projr (m j)))"
  by (induction ms) (auto split: sum.splits prod.splits)

text \<open>
  Claim C2, as stated, fails for an object whose \<^verbatim>\<open>post_type\<close> is not a string: no name is
  built, no candidate is tried, and the object is dropped with an error log although
  the generic envelope parses it.
\<close>

theorem json_to_event_numeric_counterexample:
  "json_to_event sample_deps numeric_json =
     (None, [Log ERROR (FailedToParse numeric_json TypeError)]) \<and>
   Event_parse_obj sample_deps numeric_json =
     Inr \<lparr>lifecycle = False, sub_type = [], self_id = 42, parsed_from = numeric_json\<rparr>"
  by (simp add: json_to_event_def numeric_json_def event_name_def Let_def sample_deps_def
      sample_Event_def)

text \<open>
  Claim C2, amended. For an object whose \<^verbatim>\<open>post_type\<close> is a string, the event returned is
  that of the first model, in the order of the candidate list for the name, whose
  \<^verbatim>\<open>parse_obj\<close> does not raise; when every candidate raises it is that of
  \<^verbatim>\<open>Event.parse_obj\<close>. So an object that the generic envelope parses always gives an
  event. For an object whose \<^verbatim>\<open>post_type\<close> is not a string, no event is returned and the
  one action is the error log with the payload: no candidate is tried.
\<close>

theorem json_to_event_first_candidate:
  "(map_of kvs ''post_type'' = Some (JStr p) \<longrightarrow>
      (\<exists>name. event_name d kvs (JStr p) = Inr name \<and>
         fst (json_to_event d (JObj kvs)) =
           (case List.find (\<lambda>m. \<not> isl (m (JObj kvs))) (get_event_model d name) of
              Some m \<Rightarrow> Some (projr (m (JObj kvs)))
            | None \<Rightarrow>
                (case Event_parse_obj d (JObj kvs) of
                   Inr ev \<Rightarrow> Some ev
                 | Inl e \<Rightarrow> None)) \<and>
         (\<not> isl (Event_parse_obj d (JObj kvs)) \<longrightarrow>
            fst (json_to_event d (JObj kvs)) \<noteq> None))) \<and>
   (map_of kvs ''post_type'' = Some pt \<and> (\<forall>p. pt \<noteq> JStr p) \<longrightarrow>
      json_to_event d (JObj kvs) = (None, [Log ERROR (FailedToParse (JObj kvs) TypeError)]))"
proof -
  have cascade: "\<exists>name. event_name d kvs (JStr p) = Inr name \<and>
         fst (json_to_event d (JObj kvs)) =
           (case List.find (\<lambda>m. \<not> isl (m (JObj kvs))) (get_event_model d name) of
              Some m \<Rightarrow> Some (projr (m (JObj kvs)))
            | None \<Rightarrow>
                (case Event_parse_obj d (JObj kvs) of
                   Inr ev \<Rightarrow> Some ev
                 | Inl e \<Rightarrow> None)) \<and>
         (\<not> isl (Event_parse_obj d (JObj kvs)) \<longrightarrow>
            fst (json_to_event d (JObj kvs)) \<noteq> None)"
    if pt: "map_of kvs ''post_type'' = Some (JStr p)"
  proof -
    obtain name where n: "event_name d kvs (JStr p) = Inr name"
      by (simp add: event_name_def Let_def)
    obtain r logs where t: "try_models (get_event_model d name) (JObj kvs) = (r, logs)"
      by (cases "try_models (get_event_model d name) (JObj kvs)")
    have r: "r = (case List.find (\<lambda>m. \<not> isl (m (JObj kvs))) (get_event_model d name) of
          None \<Rightarrow> None | Some m \<Rightarrow> Some (projr (m (JObj kvs))))"
      using try_models_find [of "get_event_model d name" "JObj kvs"] t by simp
    have "fst (json_to_event d (JObj kvs)) =
        (case r of Some ev \<Rightarrow> Some ev
         | None \<Rightarrow> (case Event_parse_obj d (JObj kvs) of Inr ev \<Rightarrow> Some ev | Inl e \<Rightarrow> None))"
      using pt n t by (simp add: json_to_event_def split: option.splits sum.splits)
    then show ?thesis
      using n r by (auto split: option.splits sum.splits)
  qed
  have dropped: "json_to_event d (JObj kvs) =
      (None, [Log ERROR (FailedToParse (JObj kvs) TypeError)])"
    if "map_of kvs ''post_type'' = Some pt \<and> (\<forall>p. pt \<noteq> JStr p)"
    using that json_to_event_non_string [of kvs pt d] by blast
  from cascade dropped show ?thesis by blast
qed

theorem json_to_event_first_candidate_witness:
  "json_to_event sample_deps connect_json = (Some connect_event, []) \<and>
   json_to_event cascade_deps message_json =
     (Some message_event, [Log DEBUG (EventParserError (Raised ''ValidationError''))]) \<and>
   json_to_event cascade_deps notice_json =
     (Some notice_event, [Log DEBUG (EventParserError (Raised ''ValidationError''))]) \<and>
   json_to_event sample_deps numeric_json =
     (None, [Log ERROR (FailedToParse numeric_json TypeError)])"
  using
    json_to_event_first_candidate
      [of "[(''post_type'', JStr ''meta_event''), (''meta_event_type'', JStr ''lifecycle''),
            (''sub_type'', JStr ''connect''), (''self_id'', JInt 42)]" "''meta_event''"
        sample_deps "JStr ''meta_event''"]
    json_to_event_first_candidate
      [of "[(''post_type'', JStr ''message''), (''message_type'', JStr ''private''),
            (''sub_type'', JStr ''friend''), (''self_id'', JInt 42)]" "''message''"
        cascade_deps "JStr ''message''"]
    json_to_event_first_candidate
      [of "[(''post_type'', JStr ''notice''), (''self_id'', JInt 42)]" "''notice''"
        cascade_deps "JStr ''notice''"]
    json_to_event_first_candidate
      [of "[(''post_type'', JInt 5), (''self_id'', JInt 42)]" "''5''" sample_deps "JInt 5"]
  by (simp add: eval_defs sample_defs cascade_deps_def cascade_models_def sample_Group_def
      notice_json_def notice_event_def numeric_json_def connect_event_def message_event_def)

subsection \<open>Actions of the decoder and of the receive loop\<close>

lemma try_models_actions:
  "a \<in> set (snd (try_models ms j)) \<Longrightarrow> decoder_action a"
  by (induction ms) (auto split: sum.splits prod.splits)

lemma json_to_event_actions:
  assumes "a \<in> set (snd (json_to_event d j))"
  shows "decoder_action a"
proof (cases j)
  case (JObj kvs)
  show ?thesis
  proof (cases "map_of kvs ''post_type''")
    case None
    with JObj assms show ?thesis by (simp add: json_to_event_def)
  next
    case (Some pt)
    show ?thesis
    proof (cases "event_name d kvs pt")
      case (Inl e)
      with JObj Some assms show ?thesis by (simp add: json_to_event_def)
    next
      case (Inr name)
      obtain r logs where t: "try_models (get_event_model d name) j = (r, logs)"
        by (cases "try_models (get_event_model d name) j")
      have logs: "x \<in> set logs \<Longrightarrow> decoder_action x" for x
        using try_models_actions [of x "get_event_model d name" j] t by simp
      from assms JObj Some Inr t have "a \<in> set logs \<or> decoder_action a"
        by (auto simp add: json_to_event_def split: option.splits sum.splits)
      with logs show ?thesis by blast
    qed
  qed
qed (use assms in \<open>simp_all add: json_to_event_def\<close>)

lemma receive_event_actions:
  assumes "receive_event d f = Inr (ev, acts)" and "a \<in> set acts"
  shows "decoder_action a"
proof -
  from assms(1) obtain j where "json_to_event d j = (ev, acts)"
    by (auto simp add: receive_event_def split: recv.splits sum.splits)
  with assms(2) json_to_event_actions [of a d j] show ?thesis by simp
qed

lemma ws_recv_actions:
  "a \<in> set (snd (ws_recv d b fs)) \<Longrightarrow> decoder_action a \<or> (\<exists>e. a = Dispatch b e)"
proof (induction fs)
  case Nil
  then show ?case by simp
next
  case (Cons f fs)
  show ?case
  proof (cases "receive_event d f")
    case (Inl e)
    with Cons.prems show ?thesis by simp
  next
    case (Inr p)
    obtain ev acts where p: "p = (ev, acts)" by (cases p)
    obtain r rest where w: "ws_recv d b fs = (r, rest)" by (cases "ws_recv d b fs")
    from Cons.prems Inr p w
    have "a \<in> set acts \<or> (\<exists>e. a = Dispatch b e) \<or> a \<in> set rest"
      by (auto split: option.splits)
    with Cons.IH w receive_event_actions [OF Inr [unfolded p]] show ?thesis
      by auto
  qed
qed

lemma ws_recv_no_teardown: "filter teardown_action (snd (ws_recv d b fs)) = []"
proof -
  have "\<not> teardown_action a" if "a \<in> set (snd (ws_recv d b fs))" for a
    using ws_recv_actions [OF that] by (cases a) auto
  then show ?thesis by (simp add: filter_empty_conv)
qed


lemma ws_recv_exits:
  "(fst (ws_recv d b fs) = None) = (\<forall>f \<in> set fs. \<not> isl (receive_event d f))"
  by (induction fs) (auto split: sum.splits prod.splits)

subsection \<open>The passive WebSocket handler\<close>



text \<open>
  Claim C6. Take a handshake that is accepted, so that the session \<open>b\<close> is registered. The
  receive loop has no exit but an exception, raised by \<^verbatim>\<open>receive()\<close> or \<^verbatim>\<open>json.loads\<close>. While
  no frame raises, the handler waits and has neither closed the socket nor unregistered
  the session. When a frame raises \<open>e\<close>, the handler logs \<open>e\<close>, calls \<^verbatim>\<open>close()\<close>,
  unregisters \<open>b\<close> and returns, whether \<^verbatim>\<open>close()\<close> raises or not (\<open>close_error ws\<close> is
  arbitrary); these are the only teardown actions of the run, each made once, and the
  registry is as before the handshake.
\<close>

theorem handle_ws_teardown:
  assumes "headers (ws_request ws) ''x-self-id'' = Some sid" and "sid \<noteq> []"
    and "sid \<notin> dom bs"
    and "fst (check_access_token d cfg (ws_request ws)) = None"
    and "accept_error ws = None"
    and "b = \<lparr>bot_id = sid, built_by = ViaWs\<rparr>"
  shows
    "((fst (ws_recv d b (incoming ws)) = None) =
        (\<forall>f \<in> set (incoming ws). \<not> isl (receive_event d f))) \<and>
     (fst (ws_recv d b (incoming ws)) = None \<longrightarrow>
        handle_ws d cfg ws bs =
          (Receiving, bs(sid \<mapsto> b), [WsAccept, BotConnect b] @ snd (ws_recv d b (incoming ws))) \<and>
        filter teardown_action (snd (snd (handle_ws d cfg ws bs))) = []) \<and>
     (fst (ws_recv d b (incoming ws)) = Some e \<longrightarrow>
        handle_ws d cfg ws bs =
          (Returned, bs,
           [WsAccept, BotConnect b] @ snd (ws_recv d b (incoming ws)) @
           [Log ERROR (WsProcessError sid e), WsClose, BotDisconnect b]) \<and>
        filter teardown_action (snd (snd (handle_ws d cfg ws bs))) = [WsClose, BotDisconnect b])"
proof -
  have tok: "check_access_token d cfg (ws_request ws) = (None, [])"
    using assms(4) by (rule check_access_token_pass_quiet)
  have gone: "bot_disconnect (bot_connect bs b) b = bs"
    using assms(3,6) by (auto simp add: bot_disconnect_def bot_connect_def)
  have reg: "bot_connect bs b = bs(sid \<mapsto> b)"
    using assms(6) by (simp add: bot_connect_def)
  obtain r acts where w: "ws_recv d b (incoming ws) = (r, acts)"
    by (cases "ws_recv d b (incoming ws)")
  have quiet: "filter teardown_action acts = []"
    using ws_recv_no_teardown [of d b "incoming ws"] w by simp
  have run: "handle_ws d cfg ws bs =
      (case r of
         None \<Rightarrow> (Receiving, bs(sid \<mapsto> b), [WsAccept, BotConnect b] @ acts)
       | Some e \<Rightarrow>
           (Returned, bs,
            [WsAccept, BotConnect b] @ acts @
            [Log ERROR (WsProcessError sid e), WsClose, BotDisconnect b]))"
    using assms(1,2,3,5) tok w gone reg assms(6) [symmetric]
    by (simp add: handle_ws_def Let_def ws_finally_def split: option.splits)
  show ?thesis
    using run w quiet ws_recv_exits [of d b "incoming ws"] by (auto split: option.splits)
qed

theorem handle_ws_teardown_witness:
  "handle_ws sample_deps no_config
     (ws_42 (Some (Raised ''ConnectionClosed''))
        [Frame (Text message_text), RecvError (Raised ''WebSocketClosed''), Frame (Text message_text)])
     Map.empty =
     (Returned, Map.empty,
      [WsAccept, BotConnect bot_42, Dispatch bot_42 message_event,
       Log ERROR (WsProcessError ''42'' (Raised ''WebSocketClosed'')), WsClose,
       BotDisconnect bot_42]) \<and>
   handle_ws sample_deps no_config (ws_42 None [Frame (Text message_text)]) Map.empty =
     (Receiving, [''42'' \<mapsto> bot_42], [WsAccept, BotConnect bot_42, Dispatch bot_42 message_event])"
  using
    handle_ws_teardown [of "ws_42 (Some (Raised ''ConnectionClosed''))
        [Frame (Text message_text), RecvError (Raised ''WebSocketClosed''), Frame (Text message_text)]"
      "''42''" Map.empty sample_deps no_config bot_42 "Raised ''WebSocketClosed''"]
    handle_ws_teardown [of "ws_42 None [Frame (Text message_text)]"
      "''42''" Map.empty sample_deps no_config bot_42 "Raised ''WebSocketClosed''"]
  by (simp add: ws_42_def bot_42_def no_config_def message_event_def
      check_access_token_def Let_def receive_event_def json_to_event_def event_name_def
      segment_def dict_get_def sample_defs)

subsection \<open>The forward connection\<close>

lemma receive_event_quiet:
  assumes "receive_event d f = Inr (ev, acts)"
  shows "filter session_action acts = []"
proof -
  have "\<not> session_action a" if "a \<in> set acts" for a
    using receive_event_actions [OF assms that] by (cases a) auto
  then show ?thesis by (simp add: filter_empty_conv)
qed

lemma forward_event_connect:
  "is_connect e \<Longrightarrow>
     forward_event (Some e) None bs =
       (Some (forward_bot e), bs(str_int (self_id e) \<mapsto> forward_bot e),
        [BotConnect (forward_bot e), Dispatch (forward_bot e) e])"
  by (simp add: forward_event_def is_connect_def forward_bot_def bot_connect_def Let_def)

lemma forward_recv_raise:
  "receive_event d f = Inl e \<Longrightarrow>
     forward_recv d (f # fs) bt bs = (True, bt, bs, [WsClose, Log ERROR (ForwardProcessError e)])"
  by simp

lemma forward_recv_step:
  "receive_event d f = Inr (ev, acts) \<Longrightarrow> forward_event ev bt bs = (bt1, bs1, acts1) \<Longrightarrow>
   forward_recv d fs bt1 bs1 = (r, bt2, bs2, rest) \<Longrightarrow>
     forward_recv d (f # fs) bt bs = (r, bt2, bs2, acts @ acts1 @ rest)"
  by simp

lemma decoded_raise: "receive_event d f = Inl e \<Longrightarrow> decoded d (f # fs) = []"
  by simp

lemma decoded_skip: "receive_event d f = Inr (None, acts) \<Longrightarrow> decoded d (f # fs) = decoded d fs"
  by simp

lemma decoded_event:
  "receive_event d f = Inr (Some e, acts) \<Longrightarrow> decoded d (f # fs) = e # decoded d fs"
  by simp

lemma forward_event_identified:
  "forward_event ev (Some b) bs = (Some b, bs, (case ev of None \<Rightarrow> [] | Some e \<Rightarrow> [Dispatch b e]))"
  by (simp add: forward_event_def split: option.splits)

lemma forward_event_waiting:
  "\<not> (\<exists>e. ev = Some e \<and> is_connect e) \<Longrightarrow> forward_event ev None bs = (None, bs, [])"
  by (cases ev) (auto simp add: forward_event_def is_connect_def)

lemma forward_recv_identified:
  assumes "forward_recv d fs (Some b) bs = (r, bt, bs', acts)"
  shows "bt = Some b \<and> bs' = bs \<and> filter session_action acts = map (Dispatch b) (decoded d fs)"
  using assms
proof (induction fs arbitrary: r bt bs' acts)
  case Nil
  then show ?case by simp
next
  case (Cons f fs)
  show ?case
  proof (cases "receive_event d f")
    case (Inl e)
    from Cons.prems forward_recv_raise [OF Inl, of fs "Some b" bs] decoded_raise [OF Inl, of fs]
    show ?thesis by simp
  next
    case (Inr p)
    obtain ev a where p: "receive_event d f = Inr (ev, a)"
      using Inr by (cases p) simp
    obtain r2 bt2 bs2 rest where rec: "forward_recv d fs (Some b) bs = (r2, bt2, bs2, rest)"
      by (cases "forward_recv d fs (Some b) bs") auto
    note ih = Cons.IH [OF rec]
    have q: "filter session_action a = []"
      by (rule receive_event_quiet [OF p])
    have whole: "forward_recv d (f # fs) (Some b) bs =
        (r2, bt2, bs2, a @ (case ev of None \<Rightarrow> [] | Some e \<Rightarrow> [Dispatch b e]) @ rest)"
      by (rule forward_recv_step [OF p forward_event_identified rec])
    have dec: "decoded d (f # fs) = (case ev of None \<Rightarrow> [] | Some e \<Rightarrow> [e]) @ decoded d fs"
      using p by (cases ev) simp_all
    from Cons.prems whole have
      "bt = bt2" "bs' = bs2"
      "acts = a @ (case ev of None \<Rightarrow> [] | Some e \<Rightarrow> [Dispatch b e]) @ rest"
      by simp_all
    with ih q dec show ?thesis
      by (cases ev) simp_all
  qed
qed

lemma forward_recv_unidentified:
  assumes "forward_recv d fs None bs = (r, bt, bs', acts)"
  shows "(case dropWhile (\<lambda>e. \<not> is_connect e) (decoded d fs) of
       [] \<Rightarrow> bt = None \<and> bs' = bs \<and> filter session_action acts = []
     | e # es \<Rightarrow>
         bt = Some (forward_bot e) \<and>
         bs' = bs(str_int (self_id e) \<mapsto> forward_bot e) \<and>
         filter session_action acts =
           BotConnect (forward_bot e) # Dispatch (forward_bot e) e #
           map (Dispatch (forward_bot e)) es)"
  using assms
proof (induction fs arbitrary: r bt bs' acts)
  case Nil
  then show ?case by simp
next
  case (Cons f fs)
  show ?case
  proof (cases "receive_event d f")
    case (Inl e)
    from Cons.prems forward_recv_raise [OF Inl, of fs None bs] decoded_raise [OF Inl, of fs]
    show ?thesis by simp
  next
    case (Inr p)
    obtain ev a where p: "receive_event d f = Inr (ev, a)"
      using Inr by (cases p) simp
    have q: "filter session_action a = []"
      by (rule receive_event_quiet [OF p])
    show ?thesis
    proof (cases "\<exists>e. ev = Some e \<and> is_connect e")
      case True
      then obtain e where e: "ev = Some e" and c: "is_connect e" by blast
      let ?b = "forward_bot e"
      let ?bs = "bs(str_int (self_id e) \<mapsto> forward_bot e)"
      obtain r2 bt2 bs2 rest where rec: "forward_recv d fs (Some ?b) ?bs = (r2, bt2, bs2, rest)"
        by (cases "forward_recv d fs (Some ?b) ?bs") auto
      note id = forward_recv_identified [OF rec]
      have whole: "forward_recv d (f # fs) None bs =
          (r2, bt2, bs2, a @ [BotConnect ?b, Dispatch ?b e] @ rest)"
        by (rule forward_recv_step [OF p [unfolded e] forward_event_connect [OF c] rec])
      have dec: "dropWhile (\<lambda>e. \<not> is_connect e) (decoded d (f # fs)) = e # decoded d fs"
        using decoded_event [OF p [unfolded e], of fs] c by simp
      from Cons.prems whole have
        "bt = bt2" "bs' = bs2" "acts = a @ [BotConnect ?b, Dispatch ?b e] @ rest"
        by simp_all
      with id q have
        "bt = Some ?b \<and> bs' = ?bs \<and>
         filter session_action acts =
           BotConnect ?b # Dispatch ?b e # map (Dispatch ?b) (decoded d fs)"
        by simp
      then show ?thesis
        by (simp only: dec list.case)
    next
      case False
      obtain r2 bt2 bs2 rest where rec: "forward_recv d fs None bs = (r2, bt2, bs2, rest)"
        by (cases "forward_recv d fs None bs") auto
      note ih = Cons.IH [OF rec]
      have whole: "forward_recv d (f # fs) None bs = (r2, bt2, bs2, a @ [] @ rest)"
        by (rule forward_recv_step [OF p forward_event_waiting [OF False] rec])
      have dec: "dropWhile (\<lambda>e. \<not> is_connect e) (decoded d (f # fs)) =
          dropWhile (\<lambda>e. \<not> is_connect e) (decoded d fs)"
        using False p by (cases ev) simp_all
      from Cons.prems whole have "bt = bt2" "bs' = bs2" "acts = a @ rest"
        by simp_all
      then have "filter session_action acts = filter session_action rest"
        using q by simp
      with ih \<open>bt = bt2\<close> \<open>bs' = bs2\<close> show ?thesis
        by (simp only: dec)
    qed
  qed
qed

lemma forward_loop_connected:
  "forward_loop d cfg (Connected ws # as) None bs =
     (case forward_recv d (incoming ws) None bs of
        (False, bt1, bs1, acts) \<Rightarrow> (bt1, bs1, WsOpen (forward_headers cfg) # acts)
      | (True, bt1, bs1, acts) \<Rightarrow>
          (case forward_loop d cfg as None (fst (snd (forward_finally bt1 bs1))) of
             (bt', bs', rest) \<Rightarrow>
               (bt', bs',
                WsOpen (forward_headers cfg) # acts @ snd (snd (forward_finally bt1 bs1)) @
                [Sleep] @ rest)))"
  by (auto simp add: forward_finally_def split: prod.splits bool.splits option.splits)

text \<open>
  Claim C4. On a forward connection, entered with no bot, let the decoded events be those
  that \<^verbatim>\<open>json_to_event\<close> returns for the frames, in order, until a frame raises. While none
  of them is a lifecycle event with \<^verbatim>\<open>sub_type\<close> \<^verbatim>\<open>"connect"\<close>, nothing is dispatched, no
  session is registered and the registry is untouched. From the first such event \<open>e\<close>
  on, the actions on sessions are: \<^verbatim>\<open>bot_connect\<close> of the bot built from \<^verbatim>\<open>str(e.self_id)\<close>,
  the dispatch of \<open>e\<close>, and the dispatch of every decoded event after it, in order; the
  registry holds the bot under that identity. Every connection is entered with no bot:
  \<^verbatim>\<open>_forward_ws\<close> starts so, and after a connection that ended the loop goes on with
  \<^verbatim>\<open>bot = None\<close>.
\<close>

theorem forward_identification_gate:
  "(forward_recv d fs None bs = (r, bt, bs', acts) \<longrightarrow>
      (case dropWhile (\<lambda>e. \<not> is_connect e) (decoded d fs) of
         [] \<Rightarrow> bt = None \<and> bs' = bs \<and> filter session_action acts = []
       | e # es \<Rightarrow>
           bt = Some (forward_bot e) \<and>
           bs' = bs(str_int (self_id e) \<mapsto> forward_bot e) \<and>
           filter session_action acts =
             BotConnect (forward_bot e) # Dispatch (forward_bot e) e #
             map (Dispatch (forward_bot e)) es)) \<and>
   forward_ws d cfg attempts bs = forward_loop d cfg attempts None bs \<and>
   forward_loop d cfg (Connected ws # as) None bs =
     (case forward_recv d (incoming ws) None bs of
        (False, bt1, bs1, acts) \<Rightarrow> (bt1, bs1, WsOpen (forward_headers cfg) # acts)
      | (True, bt1, bs1, acts) \<Rightarrow>
          (case forward_loop d cfg as None (fst (snd (forward_finally bt1 bs1))) of
             (bt', bs', rest) \<Rightarrow>
               (bt', bs',
                WsOpen (forward_headers cfg) # acts @ snd (snd (forward_finally bt1 bs1)) @
                [Sleep] @ rest)))"
proof (intro conjI impI)
  assume "forward_recv d fs None bs = (r, bt, bs', acts)"
  then show "case dropWhile (\<lambda>e. \<not> is_connect e) (decoded d fs) of
         [] \<Rightarrow> bt = None \<and> bs' = bs \<and> filter session_action acts = []
       | e # es \<Rightarrow>
           bt = Some (forward_bot e) \<and>
           bs' = bs(str_int (self_id e) \<mapsto> forward_bot e) \<and>
           filter session_action acts =
             BotConnect (forward_bot e) # Dispatch (forward_bot e) e #
             map (Dispatch (forward_bot e)) es"
    by (rule forward_recv_unidentified)
next
  show "forward_ws d cfg attempts bs = forward_loop d cfg attempts None bs"
    by (simp add: forward_ws_def)
next
  show "forward_loop d cfg (Connected ws # as) None bs =
     (case forward_recv d (incoming ws) None bs of
        (False, bt1, bs1, acts) \<Rightarrow> (bt1, bs1, WsOpen (forward_headers cfg) # acts)
      | (True, bt1, bs1, acts) \<Rightarrow>
          (case forward_loop d cfg as None (fst (snd (forward_finally bt1 bs1))) of
             (bt', bs', rest) \<Rightarrow>
               (bt', bs',
                WsOpen (forward_headers cfg) # acts @ snd (snd (forward_finally bt1 bs1)) @
                [Sleep] @ rest)))"
    by (rule forward_loop_connected)
qed

theorem forward_identification_gate_witness:
  "forward_recv sample_deps
     [Frame (Text message_text), Frame (Text connect_text), Frame (Text message_text)]
     None Map.empty =
     (False, Some forward_bot_42, [''42'' \<mapsto> forward_bot_42],
      [BotConnect forward_bot_42, Dispatch forward_bot_42 connect_event,
       Dispatch forward_bot_42 message_event]) \<and>
   forward_recv sample_deps [Frame (Text message_text), Frame (Text message_text)]
     None Map.empty = (False, None, Map.empty, [])"
  using
    forward_identification_gate
      [of sample_deps
        "[Frame (Text message_text), Frame (Text connect_text), Frame (Text message_text)]"
        Map.empty False "Some forward_bot_42" "[''42'' \<mapsto> forward_bot_42]"
        "[BotConnect forward_bot_42, Dispatch forward_bot_42 connect_event,
          Dispatch forward_bot_42 message_event]" no_config "[]"
        "ws_42 None []" "[]"]
    forward_identification_gate
      [of sample_deps "[Frame (Text message_text), Frame (Text message_text)]"
        Map.empty False None Map.empty "[]" no_config "[]" "ws_42 None []" "[]"]
  by (simp add: eval_defs sample_defs forward_bot_42_def connect_event_def message_event_def)

subsection \<open>Frames that cannot be processed\<close>

text \<open>
  Claim C7, as stated, fails for a malformed frame: \<^verbatim>\<open>json.loads\<close> raises inside the \<^verbatim>\<open>try\<close>
  that surrounds the receive loop. The passive handler logs the exception, closes the
  socket and unregisters the session; the forward loop closes the socket, logs and
  breaks. The frame that follows is never read.
\<close>

theorem malformed_frame_counterexample:
  "handle_ws sample_deps no_config
     (ws_42 None [Frame (Text ''{''), Frame (Text message_text)]) Map.empty =
     (Returned, Map.empty,
      [WsAccept, BotConnect bot_42, Log ERROR (WsProcessError ''42'' (Raised ''JSONDecodeError'')),
       WsClose, BotDisconnect bot_42]) \<and>
   forward_recv sample_deps [Frame (Text ''{''), Frame (Text connect_text)] None Map.empty =
     (True, None, Map.empty, [WsClose, Log ERROR (ForwardProcessError (Raised ''JSONDecodeError''))])"
  by (simp add: handle_ws_def ws_42_def no_config_def bot_42_def check_access_token_def
      ws_finally_def bot_disconnect_def eval_defs sample_defs)

lemma json_to_event_dropped:
  assumes "map_of kvs ''post_type'' = Some pt" and "fst (json_to_event d (JObj kvs)) = None"
  shows "\<exists>e logs. json_to_event d (JObj kvs) =
           (None, logs @ [Log ERROR (FailedToParse (JObj kvs) e)])"
proof (cases "event_name d kvs pt")
  case (Inl e)
  with assms(1) have "json_to_event d (JObj kvs) =
      (None, [] @ [Log ERROR (FailedToParse (JObj kvs) e)])"
    by (simp add: json_to_event_def)
  then show ?thesis by blast
next
  case (Inr name)
  obtain r logs where t: "try_models (get_event_model d name) (JObj kvs) = (r, logs)"
    by (cases "try_models (get_event_model d name) (JObj kvs)")
  from assms Inr t obtain e where "json_to_event d (JObj kvs) =
      (None, logs @ [Log ERROR (FailedToParse (JObj kvs) e)])"
    by (auto simp add: json_to_event_def split: option.splits sum.splits)
  then show ?thesis by blast
qed

lemma json_to_event_unmatched:
  assumes "map_of kvs ''post_type'' = Some (JStr p)"
    and "event_name d kvs (JStr p) = Inr name"
    and "\<forall>m \<in> set (get_event_model d name). isl (m (JObj kvs))"
    and "Event_parse_obj d (JObj kvs) = Inl e"
  shows "\<exists>logs. json_to_event d (JObj kvs) =
           (None, logs @ [Log ERROR (FailedToParse (JObj kvs) e)])"
proof -
  obtain r logs where t: "try_models (get_event_model d name) (JObj kvs) = (r, logs)"
    by (cases "try_models (get_event_model d name) (JObj kvs)")
  have "List.find (\<lambda>m. \<not> isl (m (JObj kvs))) (get_event_model d name) = None"
    using assms(3) by (simp add: find_None_iff)
  then have "r = None"
    using try_models_find [of "get_event_model d name" "JObj kvs"] t by simp
  with assms(1,2,4) t have
    "json_to_event d (JObj kvs) = (None, logs @ [Log ERROR (FailedToParse (JObj kvs) e)])"
    by (simp add: json_to_event_def)
  then show ?thesis by blast
qed

text \<open>
  Claim C7, amended. A frame whose text parses and whose payload gives no event is
  dropped and both receive loops go on with the next frame; when that payload is an
  object with \<^verbatim>\<open>post_type\<close> that no model and not even \<^verbatim>\<open>Event\<close> parses (or whose name cannot
  be built), the last action of the decoder is the error log that carries the payload.
  A frame whose text \<^verbatim>\<open>json.loads\<close> rejects ends the loop: the passive loop is left with
  that exception, the forward loop closes the socket, logs the exception and breaks.
\<close>

theorem undecodable_continues_malformed_ends:
  "(json_loads d c = Inr j \<and> json_to_event d j = (None, logs) \<longrightarrow>
      ws_recv d b (Frame c # fs) = (fst (ws_recv d b fs), logs @ snd (ws_recv d b fs)) \<and>
      forward_recv d (Frame c # fs) bt bs =
        (case forward_recv d fs bt bs of (r, bt', bs', rest) \<Rightarrow> (r, bt', bs', logs @ rest))) \<and>
   (map_of kvs ''post_type'' = Some pt \<and> fst (json_to_event d (JObj kvs)) = None \<longrightarrow>
      (\<exists>e logs. json_to_event d (JObj kvs) =
         (None, logs @ [Log ERROR (FailedToParse (JObj kvs) e)]))) \<and>
   (json_loads d c = Inl e \<longrightarrow>
      ws_recv d b (Frame c # fs) = (Some e, []) \<and>
      forward_recv d (Frame c # fs) bt bs =
        (True, bt, bs, [WsClose, Log ERROR (ForwardProcessError e)]))"
proof -
  have goes_on: "ws_recv d b (Frame c # fs) = (fst (ws_recv d b fs), logs @ snd (ws_recv d b fs)) \<and>
      forward_recv d (Frame c # fs) bt bs =
        (case forward_recv d fs bt bs of (r, bt', bs', rest) \<Rightarrow> (r, bt', bs', logs @ rest))"
    if "json_loads d c = Inr j \<and> json_to_event d j = (None, logs)"
    using that
    by (simp add: receive_event_def forward_event_def split: prod.splits)
  have logged: "\<exists>e logs. json_to_event d (JObj kvs) =
         (None, logs @ [Log ERROR (FailedToParse (JObj kvs) e)])"
    if "map_of kvs ''post_type'' = Some pt \<and> fst (json_to_event d (JObj kvs)) = None"
    using that json_to_event_dropped [of kvs pt d] by blast
  have ends: "ws_recv d b (Frame c # fs) = (Some e, []) \<and>
      forward_recv d (Frame c # fs) bt bs =
        (True, bt, bs, [WsClose, Log ERROR (ForwardProcessError e)])"
    if "json_loads d c = Inl e"
    using that by (simp add: receive_event_def)
  from goes_on logged ends show ?thesis by blast
qed

theorem undecodable_continues_malformed_ends_witness:
  "ws_recv sample_deps bot_42 [Frame (Text broken_text), Frame (Text message_text)] =
     (None,
      [Log DEBUG (EventParserError (Raised ''ValidationError'')),
       Log ERROR (FailedToParse broken_json (Raised ''ValidationError'')),
       Dispatch bot_42 message_event]) \<and>
   ws_recv sample_deps bot_42 [Frame (Text ''{''), Frame (Text message_text)] =
     (Some (Raised ''JSONDecodeError''), [])"
  using
    undecodable_continues_malformed_ends
      [of sample_deps "Text broken_text" broken_json
        "[Log DEBUG (EventParserError (Raised ''ValidationError'')),
          Log ERROR (FailedToParse broken_json (Raised ''ValidationError''))]"
        bot_42 "[Frame (Text message_text)]" None Map.empty
        "[(''post_type'', JStr ''message'')]" "JStr ''message''" "Raised ''JSONDecodeError''"]
    undecodable_continues_malformed_ends
      [of sample_deps "Text ''{''" broken_json "[]"
        bot_42 "[Frame (Text message_text)]" None Map.empty
        "[(''post_type'', JStr ''message'')]" "JStr ''message''" "Raised ''JSONDecodeError''"]
  by (simp add: eval_defs sample_defs bot_42_def message_event_def)

end
